theory Spec2Isabelle
  imports Main
begin

section \<open>Python values, strings and exceptions\<close>

text \<open>
  A Python \<open>str\<close> is modelled as a \<open>string\<close>: a list of 8-bit characters, each read as
  the code point of the same number (U+0000 to U+00FF). The character classes below are
  those of \<open>str.isalnum\<close> and \<open>str.isspace\<close> on these code points.
\<close>

definition py_isalnum :: "char \<Rightarrow> bool" where
  "py_isalnum c =
     (let n = (of_char c :: nat) in
        (48 \<le> n \<and> n \<le> 57) \<or> (65 \<le> n \<and> n \<le> 90) \<or> (97 \<le> n \<and> n \<le> 122) \<or>
        n = 170 \<or> (178 \<le> n \<and> n \<le> 179) \<or> n = 181 \<or> (185 \<le> n \<and> n \<le> 186) \<or>
        (188 \<le> n \<and> n \<le> 190) \<or> (192 \<le> n \<and> n \<le> 214) \<or> (216 \<le> n \<and> n \<le> 246) \<or>
        (248 \<le> n \<and> n \<le> 255))"

definition py_isspace :: "char \<Rightarrow> bool" where
  "py_isspace c =
     (let n = (of_char c :: nat) in
        (9 \<le> n \<and> n \<le> 13) \<or> (28 \<le> n \<and> n \<le> 32) \<or> n = 133 \<or> n = 160)"

text \<open>\<open>s.lstrip()\<close>, \<open>s.rstrip()\<close> and \<open>s.strip()\<close> without argument.\<close>

definition py_lstrip :: "string \<Rightarrow> string" where
  "py_lstrip s = dropWhile py_isspace s"

definition py_rstrip :: "string \<Rightarrow> string" where
  "py_rstrip s = rev (dropWhile py_isspace (rev s))"

definition py_strip :: "string \<Rightarrow> string" where
  "py_strip s = py_rstrip (py_lstrip s)"

text \<open>\<open>s.split(sep)\<close> for a separator of one character: never an empty list.\<close>

fun py_split :: "char \<Rightarrow> string \<Rightarrow> string list" where
  "py_split sep [] = [[]]"
| "py_split sep (c # cs) =
     (if c = sep then [] # py_split sep cs
      else (case py_split sep cs of
              [] \<Rightarrow> [[c]]
            | p # ps \<Rightarrow> (c # p) # ps))"

datatype pyexn =
    NoSuchElementException
  | TimeoutException
  | StaleElementReferenceException
  | WebDriverException
  | AttributeError
  | IndexError
  | ValueError
  | RequestsTimeout
  | RequestsConnectionError
  | OSError
  | OtherException string

text \<open>
  Every constructor of \<open>pyexn\<close> stands for a subclass of Python's \<open>Exception\<close>, so
  \<open>except Exception\<close> catches all of them; \<open>except NoSuchElementException\<close> and
  \<open>except TimeoutException\<close> catch one constructor each.
\<close>

text \<open>\<open>xs[0]\<close>, which raises \<open>IndexError\<close> on an empty list.\<close>

definition py_index0 :: "'a list \<Rightarrow> pyexn + 'a" where
  "py_index0 xs = (case xs of [] \<Rightarrow> Inl IndexError | x # _ \<Rightarrow> Inr x)"

text \<open>\<open>s.replace(' ', '+')\<close>: both strings are one character long.\<close>

definition py_replace_char :: "char \<Rightarrow> char \<Rightarrow> string \<Rightarrow> string" where
  "py_replace_char old new s = map (\<lambda>c. if c = old then new else c) s"

text \<open>
  \<open>str(n)\<close> for an integer: decimal digits, a minus sign when negative.
  \<open>digit_char\<close> is only applied to numbers below ten.
\<close>

definition digit_char :: "nat \<Rightarrow> char" where
  "digit_char d = ''0123456789'' ! d"

function str_nat :: "nat \<Rightarrow> string" where
  "str_nat n = (if n < 10 then [digit_char n] else str_nat (n div 10) @ [digit_char (n mod 10)])"
  by pat_completeness auto
termination
  by (relation "measure id") auto

definition py_str :: "int \<Rightarrow> string" where
  "py_str i = (if i < 0 then CHR ''-'' # str_nat (nat (- i)) else str_nat (nat i))"

text \<open>\<open>os.path.join(a, b)\<close> on POSIX, for two components.\<close>

definition os_path_join :: "string \<Rightarrow> string \<Rightarrow> string" where
  "os_path_join a b =
     (if b \<noteq> [] \<and> hd b = CHR ''/'' then b
      else if a = [] \<or> last a = CHR ''/'' then a @ b
      else a @ ''/'' @ b)"

text \<open>A value that is \<open>None\<close> or a \<open>str\<close>; \<open>truthy\<close> is its truth value in an \<open>if\<close>.\<close>

datatype pyval = PyNone | PyStr string

fun truthy :: "pyval \<Rightarrow> bool" where
  "truthy PyNone = False"
| "truthy (PyStr s) = (s \<noteq> [])"

section \<open>The environment and the state of a run\<close>

text \<open>
  The answer of \<open>requests.get(url, stream=True, timeout=10)\<close>: the status code, the chunks
  that \<open>iter_content(1024)\<close> yields, and the exception it raises after them, if any.
\<close>

record response =
  status_code :: int
  chunks :: "string list"
  stream_error :: "pyexn option"

text \<open>
  What one listing node answers to the five look-ups of the scraper, each either a value
  or the exception raised:
  \<^item> \<open>h2_text\<close>: \<open>item.find_element(By.TAG_NAME, 'h2').text\<close>;
  \<^item> \<open>price_whole_text\<close>: \<open>item.find_element(By.CSS_SELECTOR, 'span.a-price-whole').text\<close>;
  \<^item> \<open>price_fraction_text\<close>: the same for \<open>span.a-price-fraction\<close>;
  \<^item> \<open>icon_alt_inner\<close>: \<open>find_element(.., 'span.a-icon-alt').get_attribute('innerHTML')\<close>;
  \<^item> \<open>s_image_src\<close>: \<open>find_element(.., 'img.s-image').get_attribute('src')\<close>.
\<close>

record node =
  h2_text :: "pyexn + string"
  price_whole_text :: "pyexn + string"
  price_fraction_text :: "pyexn + string"
  icon_alt_inner :: "pyexn + pyval"
  s_image_src :: "pyexn + pyval"

text \<open>
  What the browser does with one URL: the exception of \<open>driver.get\<close>, the exception of
  \<open>wait.until\<close>, and the result of \<open>driver.find_elements\<close>.
\<close>

record page =
  get_raises :: "pyexn option"
  wait_raises :: "pyexn option"
  find_items :: "pyexn + node list"

text \<open>
  The outside world as the program sees it. \<open>http_get k url\<close> is the answer to the GET of
  \<open>url\<close> made after \<open>k\<close> earlier GETs; \<open>file_open path\<close> is the exception that
  \<open>open(path, 'w')\<close> or \<open>open(path, 'wb')\<close> raises, if any; \<open>driver url\<close> is the page
  behind \<open>url\<close>.
\<close>

record env =
  http_get :: "nat \<Rightarrow> string \<Rightarrow> pyexn + response"
  file_open :: "string \<Rightarrow> pyexn option"
  driver :: "string \<Rightarrow> page"

text \<open>The lines the program prints, one constructor per \<open>print\<close> of the source.\<close>

datatype log_entry =
    ScrapingPage int string
  | TimeoutWaitingForPage int
  | ErrorExtractingItem pyexn
  | ErrorDownloadingImage string pyexn
  | NoProductsToSave
  | SuccessfullySaved nat string
  | ErrorSavingToCsv pyexn

text \<open>A file holds the bytes of an image or the rows of a table.\<close>

datatype fcontent = Bytes string | Rows "string list list"

text \<open>
  The state of a run: the files written, the lines printed, and three histories kept for
  the statements only: the URLs given to \<open>requests.get\<close>, the URLs given to
  \<open>driver.get\<close>, and the arguments of every call of \<open>download_image\<close>.
\<close>

record world =
  files :: "string \<rightharpoonup> fcontent"
  log :: "log_entry list"
  fetched :: "string list"
  visited :: "string list"
  downloads :: "(pyval \<times> string \<times> string) list"

definition emit :: "log_entry \<Rightarrow> world \<Rightarrow> world" where
  "emit l w = w\<lparr>log := log w @ [l]\<rparr>"

section \<open>download_image\<close>

definition keep_char :: "char \<Rightarrow> bool" where
  "keep_char c = (py_isalnum c \<or> c = CHR '' '' \<or> c = CHR ''.'' \<or> c = CHR ''_'')"

definition clean_name :: "string \<Rightarrow> string" where
  "clean_name filename = py_rstrip (filter keep_char filename)"

text \<open>
  The body of the \<open>try\<close>: \<open>Inl e\<close> when \<open>e\<close> is raised, \<open>Inr (PyStr f)\<close> when the block
  returns \<open>f\<close>, \<open>Inr PyNone\<close> when it falls through; with the world at that point.
\<close>

definition download_try :: "env \<Rightarrow> string \<Rightarrow> string \<Rightarrow> string \<Rightarrow> world \<Rightarrow> (pyexn + pyval) \<times> world" where
  "download_try e url folder filename w =
     (let w1 = w\<lparr>fetched := fetched w @ [url]\<rparr> in
      case http_get e (length (fetched w)) url of
        Inl x \<Rightarrow> (Inl x, w1)
      | Inr resp \<Rightarrow>
          if status_code resp = 200 then
            (let clean_filename = clean_name filename;
                 filepath = os_path_join folder (clean_filename @ ''.jpg'')
             in case file_open e filepath of
                  Some x \<Rightarrow> (Inl x, w1)
                | None \<Rightarrow>
                    (let w2 = w1\<lparr>files := (files w1)(filepath \<mapsto> Bytes (concat (chunks resp)))\<rparr>
                     in case stream_error resp of
                          Some x \<Rightarrow> (Inl x, w2)
                        | None \<Rightarrow> (Inr (PyStr (clean_filename @ ''.jpg'')), w2)))
          else (Inr PyNone, w1))"

definition record_call :: "pyval \<Rightarrow> string \<Rightarrow> string \<Rightarrow> world \<Rightarrow> world" where
  "record_call url folder filename w = w\<lparr>downloads := downloads w @ [(url, folder, filename)]\<rparr>"

definition download_image :: "env \<Rightarrow> pyval \<Rightarrow> string \<Rightarrow> string \<Rightarrow> world \<Rightarrow> pyval \<times> world" where
  "download_image e url folder filename w =
     (let w0 = record_call url folder filename w in
      case url of
        PyNone \<Rightarrow> (PyNone, w0)
      | PyStr u \<Rightarrow>
          if u = [] then (PyNone, w0)
          else (case download_try e u folder filename w0 of
                  (Inl x, w') \<Rightarrow> (PyNone, emit (ErrorDownloadingImage u x) w')
                | (Inr r, w') \<Rightarrow> (r, w')))"

section \<open>get_products\<close>

text \<open>\<open>try: x except NoSuchElementException: d\<close>; any other exception goes on.\<close>

definition except_no_such :: "pyexn + 'a \<Rightarrow> 'a \<Rightarrow> pyexn + 'a" where
  "except_no_such x d =
     (case x of
        Inr v \<Rightarrow> Inr v
      | Inl ex \<Rightarrow> if ex = NoSuchElementException then Inr d else Inl ex)"

text \<open>Extract Title.\<close>

definition extract_title :: "node \<Rightarrow> pyexn + string" where
  "extract_title item = except_no_such (map_sum id py_strip (h2_text item)) ''N/A''"

text \<open>
  Extract Price: the fraction is looked up only when the look-up of the whole part has
  returned.
\<close>

definition price_try :: "node \<Rightarrow> pyexn + string" where
  "price_try item =
     (case price_whole_text item of
        Inl ex \<Rightarrow> Inl ex
      | Inr price_whole \<Rightarrow>
          (case price_fraction_text item of
             Inl ex \<Rightarrow> Inl ex
           | Inr price_fraction \<Rightarrow> Inr (''$'' @ price_whole @ ''.'' @ price_fraction)))"

definition extract_price :: "node \<Rightarrow> pyexn + string" where
  "extract_price item = except_no_such (price_try item) ''N/A''"

text \<open>
  Extract Rating: \<open>get_attribute('innerHTML').split(' ')[0]\<close>; on \<open>None\<close> the call of
  \<open>split\<close> raises \<open>AttributeError\<close>.
\<close>

definition rating_try :: "node \<Rightarrow> pyexn + string" where
  "rating_try item =
     (case icon_alt_inner item of
        Inl ex \<Rightarrow> Inl ex
      | Inr PyNone \<Rightarrow> Inl AttributeError
      | Inr (PyStr s) \<Rightarrow> py_index0 (py_split CHR '' '' s))"

definition extract_rating :: "node \<Rightarrow> pyexn + string" where
  "extract_rating item = except_no_such (rating_try item) ''N/A''"

text \<open>Extract Image URL.\<close>

definition extract_image_url :: "node \<Rightarrow> pyexn + pyval" where
  "extract_image_url item = except_no_such (s_image_src item) PyNone"

text \<open>A product is a \<open>dict\<close>: its keys in insertion order, each with its value.\<close>

type_synonym product = "(string \<times> pyval) list"

definition make_product :: "string \<Rightarrow> string \<Rightarrow> string \<Rightarrow> pyval \<Rightarrow> product" where
  "make_product title price rating image_filename =
     [(''title'', PyStr title), (''price'', PyStr price), (''rating'', PyStr rating),
      (''image_filename'', image_filename)]"

text \<open>
  The body of the \<open>try\<close> around one item: the four look-ups in order, the download, the
  \<open>append\<close>. \<open>Inl ex\<close> when \<open>ex\<close> leaves the block; nothing has changed by then, since
  only the look-ups raise.
\<close>

definition item_try :: "env \<Rightarrow> node \<Rightarrow> product list \<Rightarrow> world \<Rightarrow> pyexn + (product list \<times> world)" where
  "item_try e item products w =
     (case extract_title item of Inl ex \<Rightarrow> Inl ex | Inr title \<Rightarrow>
     (case extract_price item of Inl ex \<Rightarrow> Inl ex | Inr price \<Rightarrow>
     (case extract_rating item of Inl ex \<Rightarrow> Inl ex | Inr rating \<Rightarrow>
     (case extract_image_url item of Inl ex \<Rightarrow> Inl ex | Inr image_url \<Rightarrow>
        (let (image_filename, w') =
               (if truthy image_url then
                  (let safe_title = (if title \<noteq> ''N/A'' then take 30 title else ''product'')
                   in download_image e image_url ''images''
                        (safe_title @ ''_'' @ py_str (int (length products))) w)
                else (PyStr ''N/A'', w))
         in Inr (products @ [make_product title price rating image_filename], w'))))))"

definition process_item :: "env \<Rightarrow> node \<Rightarrow> product list \<Rightarrow> world \<Rightarrow> product list \<times> world" where
  "process_item e item products w =
     (case item_try e item products w of
        Inl ex \<Rightarrow> (products, emit (ErrorExtractingItem ex) w)
      | Inr r \<Rightarrow> r)"

fun items_loop :: "env \<Rightarrow> node list \<Rightarrow> product list \<Rightarrow> world \<Rightarrow> product list \<times> world" where
  "items_loop e [] products w = (products, w)"
| "items_loop e (item # rest) products w =
     (case process_item e item products w of (products', w') \<Rightarrow> items_loop e rest products' w')"

definition page_url :: "string \<Rightarrow> int \<Rightarrow> string" where
  "page_url keyword page =
     ''https://www.amazon.com/s?k='' @ py_replace_char CHR '' '' CHR ''+'' keyword
       @ ''&page='' @ py_str page"

text \<open>
  One round of the loop over the pages. \<open>Inl ex\<close> when \<open>ex\<close> leaves \<open>get_products\<close>;
  \<open>Inr products\<close> when the loop goes on to the next page, by \<open>continue\<close> or at the end of
  the body.
\<close>

definition scrape_page :: "env \<Rightarrow> string \<Rightarrow> int \<Rightarrow> product list \<Rightarrow> world \<Rightarrow> (pyexn + product list) \<times> world" where
  "scrape_page e keyword page products w =
     (let url = page_url keyword page;
          w1 = emit (ScrapingPage page url) w;
          w2 = w1\<lparr>visited := visited w1 @ [url]\<rparr>
      in case get_raises (driver e url) of
           Some ex \<Rightarrow> (Inl ex, w2)
         | None \<Rightarrow>
             (case wait_raises (driver e url) of
                Some ex \<Rightarrow>
                  if ex = TimeoutException
                  then (Inr products, emit (TimeoutWaitingForPage page) w2)
                  else (Inl ex, w2)
              | None \<Rightarrow>
                  (case find_items (driver e url) of
                     Inl ex \<Rightarrow> (Inl ex, w2)
                   | Inr items \<Rightarrow>
                       (case items_loop e items products w2 of
                          (products', w3) \<Rightarrow> (Inr products', w3)))))"

fun pages_loop :: "env \<Rightarrow> string \<Rightarrow> int list \<Rightarrow> product list \<Rightarrow> world \<Rightarrow> (pyexn + product list) \<times> world" where
  "pages_loop e keyword [] products w = (Inr products, w)"
| "pages_loop e keyword (page # rest) products w =
     (case scrape_page e keyword page products w of
        (Inl ex, w') \<Rightarrow> (Inl ex, w')
      | (Inr products', w') \<Rightarrow> pages_loop e keyword rest products' w')"

text \<open>\<open>range(1, pages + 1)\<close> is \<open>[1..pages]\<close>, empty when \<open>pages < 1\<close>.\<close>

definition get_products :: "env \<Rightarrow> string \<Rightarrow> int \<Rightarrow> world \<Rightarrow> (pyexn + product list) \<times> world" where
  "get_products e keyword pages w = pages_loop e keyword [1..pages] [] w"

section \<open>save_to_csv\<close>

text \<open>
  \<open>csv.DictWriter\<close> with its defaults (\<open>restval=''\<close>, \<open>extrasaction='raise'\<close>): a row is
  the values of the field names in order, \<open>None\<close> and a missing key written as the empty
  string; a key that is no field name raises \<open>ValueError\<close>. The file is modelled as its
  rows of cells, not as the text of the \<open>excel\<close> dialect.
\<close>

fun cell :: "pyval option \<Rightarrow> string" where
  "cell None = []"
| "cell (Some PyNone) = []"
| "cell (Some (PyStr s)) = s"

definition dict_to_list :: "string list \<Rightarrow> product \<Rightarrow> pyexn + string list" where
  "dict_to_list fieldnames rowdict =
     (if \<exists>k \<in> set (map fst rowdict). k \<notin> set fieldnames then Inl ValueError
      else Inr (map (\<lambda>key. cell (map_of rowdict key)) fieldnames))"

text \<open>\<open>writerows\<close>: the rows written, and the exception that stopped it, if any.\<close>

fun writerows :: "string list \<Rightarrow> product list \<Rightarrow> string list list \<times> pyexn option" where
  "writerows fieldnames [] = ([], None)"
| "writerows fieldnames (r # rs) =
     (case dict_to_list fieldnames r of
        Inl ex \<Rightarrow> ([], Some ex)
      | Inr row \<Rightarrow> (case writerows fieldnames rs of (rows, err) \<Rightarrow> (row # rows, err)))"

definition csv_try :: "env \<Rightarrow> string list \<Rightarrow> product list \<Rightarrow> string \<Rightarrow> world \<Rightarrow> pyexn option \<times> world" where
  "csv_try e keys products filename w =
     (case file_open e filename of
        Some ex \<Rightarrow> (Some ex, w)
      | None \<Rightarrow>
          (case writerows keys products of
             (rows, err) \<Rightarrow> (err, w\<lparr>files := (files w)(filename \<mapsto> Rows (keys # rows))\<rparr>)))"

definition save_to_csv :: "env \<Rightarrow> product list \<Rightarrow> string \<Rightarrow> world \<Rightarrow> world" where
  "save_to_csv e products filename w =
     (case products of
        [] \<Rightarrow> emit NoProductsToSave w
      | first # _ \<Rightarrow>
          (let keys = map fst first in
           case csv_try e keys products filename w of
             (Some ex, w') \<Rightarrow> emit (ErrorSavingToCsv ex) w'
           | (None, w') \<Rightarrow> emit (SuccessfullySaved (length products) filename) w'))"

section \<open>Notions used in the statements\<close>

text \<open>
  A look-up that returns, or fails because the element is missing: the only failure that
  the \<open>try\<close> of a field handles.
\<close>

definition returns_or_missing :: "pyexn + 'a \<Rightarrow> bool" where
  "returns_or_missing x = (case x of Inr _ \<Rightarrow> True | Inl ex \<Rightarrow> ex = NoSuchElementException)"

text \<open>
  The title, price and rating that a listing node yields when its extraction completes,
  those of the listings of a page in their order (none when the wait times out), and those
  stored in a record.
\<close>

definition fields_of_item :: "node \<Rightarrow> (string \<times> string \<times> string) option" where
  "fields_of_item item =
     (case (extract_title item, extract_price item, extract_rating item, extract_image_url item) of
        (Inr title, Inr price, Inr rating, Inr image_url) \<Rightarrow> Some (title, price, rating)
      | _ \<Rightarrow> None)"

definition fields_of_page :: "page \<Rightarrow> (string \<times> string \<times> string) list" where
  "fields_of_page pg =
     (if wait_raises pg = Some TimeoutException then []
      else (case find_items pg of
              Inr items \<Rightarrow> List.map_filter fields_of_item items
            | Inl _ \<Rightarrow> []))"

definition fields_of_product :: "product \<Rightarrow> (string \<times> string \<times> string) option" where
  "fields_of_product r =
     (case (map_of r ''title'', map_of r ''price'', map_of r ''rating'') of
        (Some (PyStr title), Some (PyStr price), Some (PyStr rating)) \<Rightarrow> Some (title, price, rating)
      | _ \<Rightarrow> None)"

section \<open>A concrete run\<close>

text \<open>
  Listings with every element present, with every element missing, and with the price
  fraction and the image source missing; an image server that answers 200, one that
  answers 404, one that cannot be reached, and a folder that cannot be written; a browser
  that shows two listings on page 1 of the query \<open>laptop\<close>, times out on page 2 and
  shows the second listing again on every later page; and the states of that run.
\<close>

definition node_full :: node where
  "node_full =
     \<lparr>h2_text = Inr '' Dell Laptop 15 '', price_whole_text = Inr ''499'',
      price_fraction_text = Inr ''99'', icon_alt_inner = Inr (PyStr ''4.5 out of 5 stars''),
      s_image_src = Inr (PyStr ''http://img/a.jpg'')\<rparr>"

definition node_bare :: node where
  "node_bare =
     \<lparr>h2_text = Inl NoSuchElementException, price_whole_text = Inl NoSuchElementException,
      price_fraction_text = Inl NoSuchElementException,
      icon_alt_inner = Inl NoSuchElementException,
      s_image_src = Inl NoSuchElementException\<rparr>"

definition resp_ok :: response where
  "resp_ok = \<lparr>status_code = 200, chunks = [''ab'', ''c''], stream_error = None\<rparr>"

definition resp_404 :: response where
  "resp_404 = \<lparr>status_code = 404, chunks = [''nf''], stream_error = None\<rparr>"

definition page_two :: page where
  "page_two = \<lparr>get_raises = None, wait_raises = None, find_items = Inr [node_full, node_bare]\<rparr>"

definition page_timeout :: page where
  "page_timeout = \<lparr>get_raises = None, wait_raises = Some TimeoutException, find_items = Inr []\<rparr>"

definition page_last :: page where
  "page_last = \<lparr>get_raises = None, wait_raises = None, find_items = Inr [node_bare]\<rparr>"

definition env_ok :: env where
  "env_ok =
     \<lparr>http_get = (\<lambda>k url. Inr resp_ok), file_open = (\<lambda>path. None),
      driver = (\<lambda>url. if url = page_url ''laptop'' 1 then page_two
                     else if url = page_url ''laptop'' 2 then page_timeout
                     else page_last)\<rparr>"

definition env_404 :: env where
  "env_404 =
     \<lparr>http_get = (\<lambda>k url. Inr resp_404), file_open = (\<lambda>path. None),
      driver = (\<lambda>url. page_two)\<rparr>"

definition w0 :: world where
  "w0 = \<lparr>files = Map.empty, log = [], fetched = [], visited = [], downloads = []\<rparr>"


definition w_after_full :: world where
  "w_after_full =
     \<lparr>files = [''images/Dell Laptop 15_0.jpg'' \<mapsto> Bytes ''abc''], log = [],
      fetched = [''http://img/a.jpg''], visited = [],
      downloads = [(PyStr ''http://img/a.jpg'', ''images'', ''Dell Laptop 15_0'')]\<rparr>"

definition product_full :: product where
  "product_full =
     [(''title'', PyStr ''Dell Laptop 15''), (''price'', PyStr ''$499.99''),
      (''rating'', PyStr ''4.5''), (''image_filename'', PyStr ''Dell Laptop 15_0.jpg'')]"

definition product_bare :: product where
  "product_bare =
     [(''title'', PyStr ''N/A''), (''price'', PyStr ''N/A''),
      (''rating'', PyStr ''N/A''), (''image_filename'', PyStr ''N/A'')]"


definition env_down :: env where
  "env_down =
     \<lparr>http_get = (\<lambda>k url. Inl RequestsConnectionError), file_open = (\<lambda>path. None),
      driver = (\<lambda>url. page_two)\<rparr>"

definition node_half_price :: node where
  "node_half_price =
     \<lparr>h2_text = Inr ''Mouse'', price_whole_text = Inr ''19'',
      price_fraction_text = Inl NoSuchElementException,
      icon_alt_inner = Inr (PyStr ''3.9 out of 5 stars''),
      s_image_src = Inr PyNone\<rparr>"

definition product_half_price :: product where
  "product_half_price =
     [(''title'', PyStr ''Mouse''), (''price'', PyStr ''N/A''),
      (''rating'', PyStr ''3.9''), (''image_filename'', PyStr ''N/A'')]"

definition product_failed :: product where
  "product_failed =
     [(''title'', PyStr ''Dell Laptop 15''), (''price'', PyStr ''$499.99''),
      (''rating'', PyStr ''4.5''), (''image_filename'', PyNone)]"

definition w_after_404 :: world where
  "w_after_404 =
     \<lparr>files = Map.empty, log = [], fetched = [''http://img/a.jpg''], visited = [],
      downloads = [(PyStr ''http://img/a.jpg'', ''images'', ''Dell Laptop 15_0'')]\<rparr>"

definition w_run :: world where
  "w_run =
     \<lparr>files = [''images/Dell Laptop 15_0.jpg'' \<mapsto> Bytes ''abc''],
      log = [ScrapingPage 1 ''https://www.amazon.com/s?k=laptop&page=1'',
             ScrapingPage 2 ''https://www.amazon.com/s?k=laptop&page=2'',
             TimeoutWaitingForPage 2,
             ScrapingPage 3 ''https://www.amazon.com/s?k=laptop&page=3''],
      fetched = [''http://img/a.jpg''],
      visited = [''https://www.amazon.com/s?k=laptop&page=1'',
                 ''https://www.amazon.com/s?k=laptop&page=2'',
                 ''https://www.amazon.com/s?k=laptop&page=3''],
      downloads = [(PyStr ''http://img/a.jpg'', ''images'', ''Dell Laptop 15_0'')]\<rparr>"

definition w_page1 :: world where
  "w_page1 =
     \<lparr>files = [''images/Dell Laptop 15_0.jpg'' \<mapsto> Bytes ''abc''],
      log = [ScrapingPage 1 ''https://www.amazon.com/s?k=laptop&page=1''],
      fetched = [''http://img/a.jpg''],
      visited = [''https://www.amazon.com/s?k=laptop&page=1''],
      downloads = [(PyStr ''http://img/a.jpg'', ''images'', ''Dell Laptop 15_0'')]\<rparr>"

definition w_page2 :: world where
  "w_page2 =
     \<lparr>files = [''images/Dell Laptop 15_0.jpg'' \<mapsto> Bytes ''abc''],
      log = [ScrapingPage 1 ''https://www.amazon.com/s?k=laptop&page=1'',
             ScrapingPage 2 ''https://www.amazon.com/s?k=laptop&page=2'',
             TimeoutWaitingForPage 2],
      fetched = [''http://img/a.jpg''],
      visited = [''https://www.amazon.com/s?k=laptop&page=1'',
                 ''https://www.amazon.com/s?k=laptop&page=2''],
      downloads = [(PyStr ''http://img/a.jpg'', ''images'', ''Dell Laptop 15_0'')]\<rparr>"

definition env_readonly :: env where
  "env_readonly =
     \<lparr>http_get = (\<lambda>k url. Inr resp_ok), file_open = (\<lambda>path. Some OSError),
      driver = (\<lambda>url. page_two)\<rparr>"

definition w_tried :: world where
  "w_tried =
     \<lparr>files = Map.empty, log = [], fetched = [''http://img/a.jpg''], visited = [],
      downloads = [(PyStr ''http://img/a.jpg'', ''images'', ''a_0'')]\<rparr>"

section \<open>Lemmas about the look-ups of one item\<close>

lemma py_split_hd: "py_index0 (py_split sep s) = Inr (takeWhile (\<lambda>c. c \<noteq> sep) s)"
  by (induction s) (auto simp: py_index0_def split: list.splits)

lemma except_no_such_Inr:
  "except_no_such x d = Inr v \<longleftrightarrow> x = Inr v \<or> (x = Inl NoSuchElementException \<and> v = d)"
  by (auto simp: except_no_such_def split: sum.splits)

lemma item_try_Inr:
  assumes "item_try e item products w = Inr (products', w')"
  obtains title price rating image_url image_filename where
    "extract_title item = Inr title" "extract_price item = Inr price"
    "extract_rating item = Inr rating" "extract_image_url item = Inr image_url"
    "products' = products @ [make_product title price rating image_filename]"
    "(image_filename, w') =
       (if truthy image_url then
          download_image e image_url ''images''
            ((if title \<noteq> ''N/A'' then take 30 title else ''product'') @ ''_'' @
              py_str (int (length products))) w
        else (PyStr ''N/A'', w))"
  using assms
  by (auto simp: item_try_def Let_def split: sum.splits prod.splits if_splits)

lemma extract_rating_str:
  "icon_alt_inner item = Inr (PyStr s) \<Longrightarrow>
     extract_rating item = Inr (takeWhile (\<lambda>c. c \<noteq> CHR '' '') s)"
  by (simp add: extract_rating_def rating_try_def py_split_hd except_no_such_def)

lemma extract_rating_missing:
  "icon_alt_inner item = Inl NoSuchElementException \<Longrightarrow> extract_rating item = Inr ''N/A''"
  by (simp add: extract_rating_def rating_try_def except_no_such_def)

lemma extract_rating_Inr:
  "extract_rating item = Inr rating \<Longrightarrow>
     (icon_alt_inner item = Inl NoSuchElementException \<and> rating = ''N/A'') \<or>
     (\<exists>s. icon_alt_inner item = Inr (PyStr s) \<and> rating = takeWhile (\<lambda>c. c \<noteq> CHR '' '') s)"
  by (auto simp: extract_rating_def rating_try_def py_split_hd except_no_such_def
           split: sum.splits pyval.splits if_splits)

lemma node_full_try:
  "item_try env_ok node_full [] w0 =
     Inr ([make_product ''Dell Laptop 15'' ''$499.99'' ''4.5'' (PyStr ''Dell Laptop 15_0.jpg'')],
          \<lparr>files = [''images/Dell Laptop 15_0.jpg'' \<mapsto> Bytes ''abc''], log = [],
           fetched = [''http://img/a.jpg''], visited = [],
           downloads = [(PyStr ''http://img/a.jpg'', ''images'', ''Dell Laptop 15_0'')]\<rparr>)"
  by (simp add: item_try_def node_full_def env_ok_def w0_def extract_title_def extract_price_def
        price_try_def extract_rating_def rating_try_def extract_image_url_def except_no_such_def
        py_strip_def py_lstrip_def py_rstrip_def py_isspace_def py_index0_def
        download_image_def record_call_def download_try_def resp_ok_def clean_name_def keep_char_def
        py_isalnum_def os_path_join_def py_str_def digit_char_def make_product_def)

lemma extract_title_Inr:
  "extract_title item = Inr t \<Longrightarrow>
     t = (case h2_text item of Inr x \<Rightarrow> py_strip x | Inl _ \<Rightarrow> ''N/A'')"
  by (auto simp: extract_title_def except_no_such_def split: sum.splits if_splits)

lemma extract_price_Inr:
  "extract_price item = Inr p \<Longrightarrow>
     (price_whole_text item = Inl NoSuchElementException \<and> p = ''N/A'') \<or>
     (\<exists>a. price_whole_text item = Inr a \<and>
          (price_fraction_text item = Inl NoSuchElementException \<and> p = ''N/A'' \<or>
           (\<exists>b. price_fraction_text item = Inr b \<and> p = ''$'' @ a @ ''.'' @ b)))"
  by (auto simp: extract_price_def price_try_def except_no_such_def split: sum.splits if_splits)

lemma extract_image_url_Inr:
  "extract_image_url item = Inr u \<Longrightarrow>
     u = (case s_image_src item of Inr x \<Rightarrow> x | Inl _ \<Rightarrow> PyNone)"
  by (auto simp: extract_image_url_def except_no_such_def split: sum.splits if_splits)

lemma returns_or_missing_except:
  "returns_or_missing x \<Longrightarrow> \<exists>v. except_no_such x d = Inr v"
  by (auto simp: returns_or_missing_def except_no_such_def split: sum.splits)

lemma extract_title_total:
  "returns_or_missing (h2_text item) \<Longrightarrow> \<exists>v. extract_title item = Inr v"
  unfolding extract_title_def
  by (rule returns_or_missing_except) (auto simp: returns_or_missing_def split: sum.splits)

lemma extract_price_total:
  "returns_or_missing (price_whole_text item) \<Longrightarrow> returns_or_missing (price_fraction_text item)
     \<Longrightarrow> \<exists>v. extract_price item = Inr v"
  unfolding extract_price_def
  by (rule returns_or_missing_except)
     (auto simp: returns_or_missing_def price_try_def split: sum.splits)

lemma extract_rating_total:
  "returns_or_missing (icon_alt_inner item) \<Longrightarrow> icon_alt_inner item \<noteq> Inr PyNone
     \<Longrightarrow> \<exists>v. extract_rating item = Inr v"
  unfolding extract_rating_def
  by (rule returns_or_missing_except)
     (auto simp: returns_or_missing_def rating_try_def py_split_hd split: sum.splits pyval.splits)

lemma extract_image_url_total:
  "returns_or_missing (s_image_src item) \<Longrightarrow> \<exists>v. extract_image_url item = Inr v"
  unfolding extract_image_url_def by (rule returns_or_missing_except)

lemma item_try_total:
  assumes "extract_title item = Inr t" "extract_price item = Inr p"
    "extract_rating item = Inr r" "extract_image_url item = Inr u"
  shows "\<exists>products' w'. item_try e item products w = Inr (products', w')"
  using assms by (simp add: item_try_def Let_def split: prod.splits)

lemma node_bare_try:
  "item_try e node_bare ps w = Inr (ps @ [make_product ''N/A'' ''N/A'' ''N/A'' (PyStr ''N/A'')], w)"
  by (simp add: item_try_def node_bare_def extract_title_def extract_price_def
        price_try_def extract_rating_def rating_try_def extract_image_url_def except_no_such_def)

lemma node_full_run: "item_try env_ok node_full [] w0 = Inr ([product_full], w_after_full)"
  by (simp add: node_full_try w_after_full_def product_full_def make_product_def)

lemma node_bare_run: "item_try e node_bare ps w = Inr (ps @ [product_bare], w)"
  by (simp add: node_bare_try product_bare_def make_product_def)


section \<open>The record of one item\<close>

text \<open>
  Claim C1. When the extraction of a listing node completes, the record appended has
  exactly the keys title, price, rating and image_filename, in this order, and each value
  is the one extracted for its own field or its sentinel. When every look-up either
  returns or fails because its element is missing (and the inner HTML is a string), the
  extraction completes: a missing field does not keep the other fields or the record
  from being built.
\<close>

theorem item_record_four_fields:
  "(item_try e item products w = Inr (products', w') \<longrightarrow>
      (\<exists>r image_filename.
         products' = products @ [r] \<and>
         map fst r = [''title'', ''price'', ''rating'', ''image_filename''] \<and>
         map_of r ''title'' =
           Some (PyStr (case h2_text item of Inr t \<Rightarrow> py_strip t | Inl _ \<Rightarrow> ''N/A'')) \<and>
         map_of r ''price'' =
           Some (PyStr (case price_whole_text item of
                          Inr a \<Rightarrow> (case price_fraction_text item of
                                     Inr b \<Rightarrow> ''$'' @ a @ ''.'' @ b | Inl _ \<Rightarrow> ''N/A'')
                        | Inl _ \<Rightarrow> ''N/A'')) \<and>
         map_of r ''rating'' =
           Some (PyStr (case icon_alt_inner item of
                          Inr (PyStr s) \<Rightarrow> takeWhile (\<lambda>c. c \<noteq> CHR '' '') s
                        | _ \<Rightarrow> ''N/A'')) \<and>
         map_of r ''image_filename'' = Some image_filename)) \<and>
   (returns_or_missing (h2_text item) \<and> returns_or_missing (price_whole_text item) \<and>
    returns_or_missing (price_fraction_text item) \<and> returns_or_missing (icon_alt_inner item) \<and>
    icon_alt_inner item \<noteq> Inr PyNone \<and> returns_or_missing (s_image_src item) \<longrightarrow>
      (\<exists>products' w'. item_try e item products w = Inr (products', w')))"
proof (intro conjI impI)
  assume run: "item_try e item products w = Inr (products', w')"
  then obtain title price rating image_filename where
    t: "extract_title item = Inr title" and p: "extract_price item = Inr price" and
    r: "extract_rating item = Inr rating" and
    ps: "products' = products @ [make_product title price rating image_filename]"
    by (rule item_try_Inr)
  have "title = (case h2_text item of Inr t \<Rightarrow> py_strip t | Inl _ \<Rightarrow> ''N/A'')"
    using t by (rule extract_title_Inr)
  moreover have "price = (case price_whole_text item of
                          Inr a \<Rightarrow> (case price_fraction_text item of
                                     Inr b \<Rightarrow> ''$'' @ a @ ''.'' @ b | Inl _ \<Rightarrow> ''N/A'')
                        | Inl _ \<Rightarrow> ''N/A'')"
    using extract_price_Inr [OF p] by auto
  moreover have "rating = (case icon_alt_inner item of
                          Inr (PyStr s) \<Rightarrow> takeWhile (\<lambda>c. c \<noteq> CHR '' '') s
                        | _ \<Rightarrow> ''N/A'')"
    using extract_rating_Inr [OF r] by auto
  ultimately show "\<exists>r image_filename.
         products' = products @ [r] \<and>
         map fst r = [''title'', ''price'', ''rating'', ''image_filename''] \<and>
         map_of r ''title'' =
           Some (PyStr (case h2_text item of Inr t \<Rightarrow> py_strip t | Inl _ \<Rightarrow> ''N/A'')) \<and>
         map_of r ''price'' =
           Some (PyStr (case price_whole_text item of
                          Inr a \<Rightarrow> (case price_fraction_text item of
                                     Inr b \<Rightarrow> ''$'' @ a @ ''.'' @ b | Inl _ \<Rightarrow> ''N/A'')
                        | Inl _ \<Rightarrow> ''N/A'')) \<and>
         map_of r ''rating'' =
           Some (PyStr (case icon_alt_inner item of
                          Inr (PyStr s) \<Rightarrow> takeWhile (\<lambda>c. c \<noteq> CHR '' '') s
                        | _ \<Rightarrow> ''N/A'')) \<and>
         map_of r ''image_filename'' = Some image_filename"
    using ps by (simp add: make_product_def)
next
  assume h: "returns_or_missing (h2_text item) \<and> returns_or_missing (price_whole_text item) \<and>
    returns_or_missing (price_fraction_text item) \<and> returns_or_missing (icon_alt_inner item) \<and>
    icon_alt_inner item \<noteq> Inr PyNone \<and> returns_or_missing (s_image_src item)"
  obtain t where t: "extract_title item = Inr t" using h extract_title_total by blast
  obtain p where p: "extract_price item = Inr p" using h extract_price_total by blast
  obtain r where r: "extract_rating item = Inr r" using h extract_rating_total by blast
  obtain u where u: "extract_image_url item = Inr u" using h extract_image_url_total by blast
  show "\<exists>products' w'. item_try e item products w = Inr (products', w')"
    using t p r u by (rule item_try_total)
qed


theorem item_record_four_fields_witness:
  "item_try env_ok node_full [] w0 = Inr ([product_full], w_after_full) \<and>
   map fst product_full = [''title'', ''price'', ''rating'', ''image_filename''] \<and>
   map_of product_full ''title'' = Some (PyStr ''Dell Laptop 15'') \<and>
   map_of product_full ''price'' = Some (PyStr ''$499.99'') \<and>
   map_of product_full ''rating'' = Some (PyStr ''4.5'') \<and>
   returns_or_missing (h2_text node_bare) \<and> returns_or_missing (price_whole_text node_bare) \<and>
   returns_or_missing (price_fraction_text node_bare) \<and>
   returns_or_missing (icon_alt_inner node_bare) \<and> icon_alt_inner node_bare \<noteq> Inr PyNone \<and>
   returns_or_missing (s_image_src node_bare) \<and>
   (\<exists>products' w'. item_try env_ok node_bare [] w0 = Inr (products', w'))"
proof -
  have run: "item_try env_ok node_full [] w0 = Inr ([product_full], w_after_full)"
    by (rule node_full_run)
  have bare: "returns_or_missing (h2_text node_bare) \<and>
      returns_or_missing (price_whole_text node_bare) \<and>
      returns_or_missing (price_fraction_text node_bare) \<and>
      returns_or_missing (icon_alt_inner node_bare) \<and> icon_alt_inner node_bare \<noteq> Inr PyNone \<and>
      returns_or_missing (s_image_src node_bare)"
    by (simp add: node_bare_def returns_or_missing_def)
  have strip: "py_strip '' Dell Laptop 15 '' = ''Dell Laptop 15''"
    by (simp add: py_strip_def py_lstrip_def py_rstrip_def py_isspace_def)
  note c1 = item_record_four_fields
    [of env_ok node_full "[]" w0 "[product_full]" w_after_full, THEN conjunct1, THEN mp, OF run]
  have full: "map fst product_full = [''title'', ''price'', ''rating'', ''image_filename''] \<and>
     map_of product_full ''title'' = Some (PyStr ''Dell Laptop 15'') \<and>
     map_of product_full ''price'' = Some (PyStr ''$499.99'') \<and>
     map_of product_full ''rating'' = Some (PyStr ''4.5'')"
    using c1 by (auto simp: node_full_def strip)
  from item_record_four_fields [of env_ok node_bare "[]" w0] bare
  have "\<exists>products' w'. item_try env_ok node_bare [] w0 = Inr (products', w')"
    by blast
  with run full bare show ?thesis by blast
qed


text \<open>
  Claim C7. The rating is the part of the icon text before the first space, whatever that
  text is, and \<open>N/A\<close> when the element is missing; this is the value stored under
  \<open>rating\<close> in the record.
\<close>

theorem rating_before_first_space:
  "(\<forall>s. icon_alt_inner item = Inr (PyStr s) \<longrightarrow>
        extract_rating item = Inr (takeWhile (\<lambda>c. c \<noteq> CHR '' '') s)) \<and>
   (icon_alt_inner item = Inl NoSuchElementException \<longrightarrow> extract_rating item = Inr ''N/A'') \<and>
   (item_try e item products w = Inr (products', w') \<longrightarrow>
      (\<exists>r rating. products' = products @ [r] \<and> extract_rating item = Inr rating \<and>
                  map_of r ''rating'' = Some (PyStr rating)))"
proof (intro conjI allI impI)
  fix s assume "icon_alt_inner item = Inr (PyStr s)"
  then show "extract_rating item = Inr (takeWhile (\<lambda>c. c \<noteq> CHR '' '') s)"
    by (rule extract_rating_str)
next
  assume "icon_alt_inner item = Inl NoSuchElementException"
  then show "extract_rating item = Inr ''N/A''" by (rule extract_rating_missing)
next
  assume "item_try e item products w = Inr (products', w')"
  then show "\<exists>r rating. products' = products @ [r] \<and> extract_rating item = Inr rating \<and>
                  map_of r ''rating'' = Some (PyStr rating)"
    by (elim item_try_Inr) (simp add: make_product_def)
qed


theorem rating_before_first_space_witness:
  "icon_alt_inner node_full = Inr (PyStr ''4.5 out of 5 stars'') \<and>
   extract_rating node_full = Inr ''4.5'' \<and>
   icon_alt_inner node_bare = Inl NoSuchElementException \<and>
   extract_rating node_bare = Inr ''N/A'' \<and>
   item_try env_ok node_full [] w0 = Inr ([product_full], w_after_full) \<and>
   map_of product_full ''rating'' = Some (PyStr ''4.5'')"
proof -
  have a: "icon_alt_inner node_full = Inr (PyStr ''4.5 out of 5 stars'')"
    by (simp add: node_full_def)
  have b: "icon_alt_inner node_bare = Inl NoSuchElementException"
    by (simp add: node_bare_def)
  have run: "item_try env_ok node_full [] w0 = Inr ([product_full], w_after_full)"
    by (rule node_full_run)
  note inst = rating_before_first_space [of node_full env_ok "[]" w0 "[product_full]" w_after_full]
  from inst a have r1: "extract_rating node_full = Inr ''4.5''" by simp
  from inst run r1 have r3: "map_of product_full ''rating'' = Some (PyStr ''4.5'')" by auto
  from rating_before_first_space [of node_bare] b
  have r2: "extract_rating node_bare = Inr ''N/A''" by blast
  from a b run r1 r2 r3 show ?thesis by blast
qed

section \<open>Lemmas about download_image\<close>

lemma fetched_record_call [simp]: "fetched (record_call url folder filename w) = fetched w"
  by (simp add: record_call_def)

lemma download_image_none:
  "download_image e PyNone folder filename w = (PyNone, record_call PyNone folder filename w)"
  by (simp add: download_image_def)

lemma download_image_empty:
  "download_image e (PyStr []) folder filename w =
     (PyNone, record_call (PyStr []) folder filename w)"
  by (simp add: download_image_def)

lemma download_image_raise:
  "u \<noteq> [] \<Longrightarrow> download_try e u folder filename (record_call (PyStr u) folder filename w) = (Inl x, w1) \<Longrightarrow>
     download_image e (PyStr u) folder filename w = (PyNone, emit (ErrorDownloadingImage u x) w1)"
  by (simp add: download_image_def)

lemma download_image_status:
  "u \<noteq> [] \<Longrightarrow> http_get e (length (fetched w)) u = Inr resp \<Longrightarrow> status_code resp \<noteq> 200 \<Longrightarrow>
     download_image e (PyStr u) folder filename w =
       (PyNone, (record_call (PyStr u) folder filename w)\<lparr>fetched := fetched w @ [u]\<rparr>)"
  by (simp add: download_image_def download_try_def)

lemma download_image_get_raises:
  "u \<noteq> [] \<Longrightarrow> http_get e (length (fetched w)) u = Inl x \<Longrightarrow>
     download_image e (PyStr u) folder filename w =
       (PyNone, (record_call (PyStr u) folder filename w)
                  \<lparr>fetched := fetched w @ [u], log := log w @ [ErrorDownloadingImage u x]\<rparr>)"
  by (simp add: download_image_def download_try_def emit_def record_call_def)

lemma download_image_success:
  assumes "download_image e url folder filename w = (PyStr f, w')"
  obtains u resp where "url = PyStr u" "u \<noteq> []"
    "http_get e (length (fetched w)) u = Inr resp" "status_code resp = 200"
    "stream_error resp = None"
    "file_open e (os_path_join folder (clean_name filename @ ''.jpg'')) = None"
    "f = clean_name filename @ ''.jpg''"
    "w' = (record_call url folder filename w)
            \<lparr>fetched := fetched w @ [u],
             files := (files w)(os_path_join folder (clean_name filename @ ''.jpg'')
                         \<mapsto> Bytes (concat (chunks resp)))\<rparr>"
  using assms
  by (auto simp: download_image_def download_try_def Let_def emit_def record_call_def
           split: pyval.splits if_splits sum.splits option.splits prod.splits)

lemma download_image_failed:
  assumes "u \<noteq> []"
    and "case http_get e (length (fetched w)) u of Inl x \<Rightarrow> True | Inr resp \<Rightarrow> status_code resp \<noteq> 200"
  shows "fst (download_image e (PyStr u) folder filename w) = PyNone"
  using assms by (auto simp: download_image_status download_image_get_raises split: sum.splits)

lemma dropWhile_rev_spaces:
  "\<forall>c \<in> set xs. P c \<longrightarrow> c = a \<Longrightarrow> \<exists>k. xs = rev (dropWhile P (rev xs)) @ replicate k a"
proof (induction xs rule: rev_induct)
  case Nil
  then show ?case by simp
next
  case (snoc x xs)
  show ?case
  proof (cases "P x")
    case True
    with snoc.prems have xa: "x = a" by simp
    from snoc have "\<exists>k. xs = rev (dropWhile P (rev xs)) @ replicate k a" by simp
    then obtain k where k: "xs = rev (dropWhile P (rev xs)) @ replicate k a" ..
    have d: "rev (dropWhile P (rev (xs @ [x]))) = rev (dropWhile P (rev xs))"
      using True by simp
    have "xs @ [x] = (rev (dropWhile P (rev xs)) @ replicate k a) @ [a]"
      using k xa by simp
    also have "\<dots> = rev (dropWhile P (rev xs)) @ replicate (Suc k) a"
      by (simp add: replicate_append_same)
    finally have "xs @ [x] = rev (dropWhile P (rev (xs @ [x]))) @ replicate (Suc k) a"
      using d by simp
    then show ?thesis ..
  next
    case False
    then have "xs @ [x] = rev (dropWhile P (rev (xs @ [x]))) @ replicate 0 a" by simp
    then show ?thesis ..
  qed
qed

lemma clean_name_chars: "c \<in> set (clean_name filename) \<Longrightarrow> keep_char c"
  by (auto simp: clean_name_def py_rstrip_def dest: set_dropWhileD)

lemma clean_name_trimmed:
  "clean_name filename = [] \<or> \<not> py_isspace (last (clean_name filename))"
proof (cases "clean_name filename = []")
  case True
  then show ?thesis by simp
next
  case False
  then have ne: "dropWhile py_isspace (rev (filter keep_char filename)) \<noteq> []"
    by (simp add: clean_name_def py_rstrip_def)
  then have "\<not> py_isspace (hd (dropWhile py_isspace (rev (filter keep_char filename))))"
    by (rule hd_dropWhile)
  then show ?thesis using ne
    by (simp add: clean_name_def py_rstrip_def last_rev)
qed

lemma keep_char_space: "keep_char c \<Longrightarrow> py_isspace c \<Longrightarrow> c = CHR '' ''"
  by (auto simp: keep_char_def py_isspace_def py_isalnum_def Let_def)

lemma clean_name_suffix:
  "\<exists>k. filter keep_char filename = clean_name filename @ replicate k CHR '' ''"
  unfolding clean_name_def py_rstrip_def
  by (rule dropWhile_rev_spaces) (auto intro: keep_char_space)

lemma keep_char_not_slash: "keep_char c \<Longrightarrow> c \<noteq> CHR ''/''"
  by (auto simp: keep_char_def py_isalnum_def Let_def)

lemma jpg_name_not_absolute: "hd (clean_name filename @ ''.jpg'') \<noteq> CHR ''/''"
proof (cases "clean_name filename")
  case Nil
  then show ?thesis by simp
next
  case (Cons c cs)
  then have "c \<in> set (clean_name filename)" by simp
  then have "keep_char c" by (rule clean_name_chars)
  then show ?thesis using Cons by (simp add: keep_char_not_slash)
qed

lemma join_jpg_name:
  "os_path_join folder (clean_name filename @ ''.jpg'') =
     (if folder = [] \<or> last folder = CHR ''/'' then folder @ clean_name filename @ ''.jpg''
      else folder @ ''/'' @ clean_name filename @ ''.jpg'')"
  using jpg_name_not_absolute [of filename] by (simp add: os_path_join_def)

lemma download_ok_run:
  "download_image env_ok (PyStr ''http://img/a.jpg'') ''images'' ''Dell Laptop 15_0'' w0 =
     (PyStr ''Dell Laptop 15_0.jpg'', w_after_full)"
  by (simp add: download_image_def record_call_def download_try_def env_ok_def resp_ok_def
        w0_def w_after_full_def clean_name_def keep_char_def py_isalnum_def py_rstrip_def
        py_isspace_def os_path_join_def)

section \<open>Downloading an image\<close>

text \<open>
  Claim C5, as the specification states it, asks for a logged diagnostic whenever the
  status is not 200. At a 404 answer \<open>download_image\<close> returns \<open>None\<close> and prints
  nothing: the only \<open>print\<close> is in the \<open>except\<close> branch.
\<close>

theorem status_404_logs_nothing:
  "fst (download_image env_404 (PyStr ''http://img/a.jpg'') ''images'' ''a_0'' w0) = PyNone \<and>
   log w0 = [] \<and>
   log (snd (download_image env_404 (PyStr ''http://img/a.jpg'') ''images'' ''a_0'' w0)) = []"
  by (simp add: download_image_def record_call_def download_try_def env_404_def resp_404_def w0_def)

text \<open>
  Claim C5, amended. A name is returned only after an answer with status 200. Any other
  status gives \<open>None\<close>, writes no file and prints nothing; an exception of the GET, and
  any exception raised inside the \<open>try\<close>, gives \<open>None\<close> and one printed diagnostic.
  Nothing is raised to the caller.
\<close>

theorem download_only_200_succeeds:
  "(download_image e (PyStr u) folder filename w = (PyStr f, w') \<longrightarrow>
      (\<exists>resp. http_get e (length (fetched w)) u = Inr resp \<and> status_code resp = 200)) \<and>
   (u \<noteq> [] \<and> http_get e (length (fetched w)) u = Inr resp \<and> status_code resp \<noteq> 200 \<longrightarrow>
      download_image e (PyStr u) folder filename w =
        (PyNone, (record_call (PyStr u) folder filename w)\<lparr>fetched := fetched w @ [u]\<rparr>)) \<and>
   (u \<noteq> [] \<and> http_get e (length (fetched w)) u = Inl x \<longrightarrow>
      download_image e (PyStr u) folder filename w =
        (PyNone, (record_call (PyStr u) folder filename w)
                   \<lparr>fetched := fetched w @ [u], log := log w @ [ErrorDownloadingImage u x]\<rparr>)) \<and>
   (u \<noteq> [] \<and>
    download_try e u folder filename (record_call (PyStr u) folder filename w) = (Inl x, w1) \<longrightarrow>
      download_image e (PyStr u) folder filename w =
        (PyNone, w1\<lparr>log := log w1 @ [ErrorDownloadingImage u x]\<rparr>))"
proof (intro conjI impI)
  assume "download_image e (PyStr u) folder filename w = (PyStr f, w')"
  then show "\<exists>resp. http_get e (length (fetched w)) u = Inr resp \<and> status_code resp = 200"
    by (rule download_image_success) auto
next
  assume "u \<noteq> [] \<and> http_get e (length (fetched w)) u = Inr resp \<and> status_code resp \<noteq> 200"
  then show "download_image e (PyStr u) folder filename w =
        (PyNone, (record_call (PyStr u) folder filename w)\<lparr>fetched := fetched w @ [u]\<rparr>)"
    by (simp add: download_image_status)
next
  assume "u \<noteq> [] \<and> http_get e (length (fetched w)) u = Inl x"
  then show "download_image e (PyStr u) folder filename w =
        (PyNone, (record_call (PyStr u) folder filename w)
                   \<lparr>fetched := fetched w @ [u], log := log w @ [ErrorDownloadingImage u x]\<rparr>)"
    by (simp add: download_image_get_raises)
next
  assume "u \<noteq> [] \<and>
    download_try e u folder filename (record_call (PyStr u) folder filename w) = (Inl x, w1)"
  then show "download_image e (PyStr u) folder filename w =
        (PyNone, w1\<lparr>log := log w1 @ [ErrorDownloadingImage u x]\<rparr>)"
    by (simp add: download_image_raise emit_def)
qed

theorem download_only_200_succeeds_witness:
  "download_image env_ok (PyStr ''http://img/a.jpg'') ''images'' ''Dell Laptop 15_0'' w0 =
     (PyStr ''Dell Laptop 15_0.jpg'', w_after_full) \<and>
   (\<exists>resp. http_get env_ok (length (fetched w0)) ''http://img/a.jpg'' = Inr resp \<and>
           status_code resp = 200) \<and>
   http_get env_404 (length (fetched w0)) ''http://img/a.jpg'' = Inr resp_404 \<and>
   status_code resp_404 \<noteq> 200 \<and>
   download_image env_404 (PyStr ''http://img/a.jpg'') ''images'' ''a_0'' w0 =
     (PyNone, (record_call (PyStr ''http://img/a.jpg'') ''images'' ''a_0'' w0)
                \<lparr>fetched := fetched w0 @ [''http://img/a.jpg'']\<rparr>) \<and>
   http_get env_down (length (fetched w0)) ''http://img/a.jpg'' = Inl RequestsConnectionError \<and>
   download_image env_down (PyStr ''http://img/a.jpg'') ''images'' ''a_0'' w0 =
     (PyNone, (record_call (PyStr ''http://img/a.jpg'') ''images'' ''a_0'' w0)
                \<lparr>fetched := fetched w0 @ [''http://img/a.jpg''],
                 log := log w0 @ [ErrorDownloadingImage ''http://img/a.jpg'' RequestsConnectionError]\<rparr>) \<and>
   download_try env_readonly ''http://img/a.jpg'' ''images'' ''a_0''
       (record_call (PyStr ''http://img/a.jpg'') ''images'' ''a_0'' w0) = (Inl OSError, w_tried) \<and>
   download_image env_readonly (PyStr ''http://img/a.jpg'') ''images'' ''a_0'' w0 =
     (PyNone, w_tried\<lparr>log := log w_tried @ [ErrorDownloadingImage ''http://img/a.jpg'' OSError]\<rparr>)"
proof -
  have ok: "download_image env_ok (PyStr ''http://img/a.jpg'') ''images'' ''Dell Laptop 15_0'' w0 =
     (PyStr ''Dell Laptop 15_0.jpg'', w_after_full)"
    by (rule download_ok_run)
  have nf: "''http://img/a.jpg'' \<noteq> [] \<and>
      http_get env_404 (length (fetched w0)) ''http://img/a.jpg'' = Inr resp_404 \<and>
      status_code resp_404 \<noteq> 200"
    by (simp add: env_404_def resp_404_def)
  have dn: "''http://img/a.jpg'' \<noteq> [] \<and>
      http_get env_down (length (fetched w0)) ''http://img/a.jpg'' = Inl RequestsConnectionError"
    by (simp add: env_down_def)
  note a = download_only_200_succeeds
    [where e = env_ok and u = "''http://img/a.jpg''" and folder = "''images''"
       and filename = "''Dell Laptop 15_0''" and w = w0 and f = "''Dell Laptop 15_0.jpg''"
       and w' = w_after_full, THEN conjunct1, THEN mp, OF ok]
  note b = download_only_200_succeeds
    [where e = env_404 and u = "''http://img/a.jpg''" and folder = "''images''"
       and filename = "''a_0''" and w = w0 and resp = resp_404,
     THEN conjunct2, THEN conjunct1, THEN mp, OF nf]
  note c = download_only_200_succeeds
    [where e = env_down and u = "''http://img/a.jpg''" and folder = "''images''"
       and filename = "''a_0''" and w = w0 and x = RequestsConnectionError,
     THEN conjunct2, THEN conjunct2, THEN conjunct1, THEN mp, OF dn]
  have ro: "''http://img/a.jpg'' \<noteq> [] \<and>
      download_try env_readonly ''http://img/a.jpg'' ''images'' ''a_0''
        (record_call (PyStr ''http://img/a.jpg'') ''images'' ''a_0'' w0) = (Inl OSError, w_tried)"
    by (simp add: download_try_def record_call_def env_readonly_def resp_ok_def w0_def
          w_tried_def)
  note d = download_only_200_succeeds
    [where e = env_readonly and u = "''http://img/a.jpg''" and folder = "''images''"
       and filename = "''a_0''" and w = w0 and x = OSError and ?w1.0 = w_tried,
     THEN conjunct2, THEN conjunct2, THEN conjunct2, THEN mp, OF ro]
  from ok a nf b dn c ro d show ?thesis by blast
qed

text \<open>
  Claim C8. A successful download returns the desired name reduced to its alphanumeric
  characters, spaces, periods and underscores, without the trailing spaces, followed by
  \<open>.jpg\<close>; what was cut at the end is spaces only. The bytes are stored under that name
  inside the folder, and the value returned is the name, not the path.
\<close>

theorem stored_name_is_sanitized:
  assumes "download_image e (PyStr u) folder filename w = (PyStr f, w')"
  shows "f = clean_name filename @ ''.jpg'' \<and>
     clean_name filename = py_rstrip (filter keep_char filename) \<and>
     (\<forall>c \<in> set (clean_name filename).
        py_isalnum c \<or> c = CHR '' '' \<or> c = CHR ''.'' \<or> c = CHR ''_'') \<and>
     (\<exists>k. filter keep_char filename = clean_name filename @ replicate k CHR '' '') \<and>
     (clean_name filename = [] \<or> \<not> py_isspace (last (clean_name filename))) \<and>
     (\<exists>resp. http_get e (length (fetched w)) u = Inr resp \<and> status_code resp = 200 \<and>
        files w' (if folder = [] \<or> last folder = CHR ''/'' then folder @ f
                  else folder @ ''/'' @ f) = Some (Bytes (concat (chunks resp))))"
proof -
  from assms obtain u' resp where
    u': "PyStr u = PyStr u'" "u' \<noteq> []" and
    get: "http_get e (length (fetched w)) u' = Inr resp" "status_code resp = 200" and
    "stream_error resp = None"
    "file_open e (os_path_join folder (clean_name filename @ ''.jpg'')) = None" and
    f: "f = clean_name filename @ ''.jpg''" and
    w': "w' = (record_call (PyStr u) folder filename w)
            \<lparr>fetched := fetched w @ [u'],
             files := (files w)(os_path_join folder (clean_name filename @ ''.jpg'')
                         \<mapsto> Bytes (concat (chunks resp)))\<rparr>"
    by (rule download_image_success)
  have chars: "\<forall>c \<in> set (clean_name filename).
        py_isalnum c \<or> c = CHR '' '' \<or> c = CHR ''.'' \<or> c = CHR ''_''"
    using clean_name_chars by (auto simp: keep_char_def)
  have "files w' (os_path_join folder f) = Some (Bytes (concat (chunks resp)))"
    using f w' by simp
  then have "files w' (if folder = [] \<or> last folder = CHR ''/'' then folder @ f
                        else folder @ ''/'' @ f) = Some (Bytes (concat (chunks resp)))"
    unfolding f join_jpg_name .
  with get u' have stored:
    "\<exists>resp. http_get e (length (fetched w)) u = Inr resp \<and> status_code resp = 200 \<and>
        files w' (if folder = [] \<or> last folder = CHR ''/'' then folder @ f
                  else folder @ ''/'' @ f) = Some (Bytes (concat (chunks resp)))"
    by auto
  have def: "clean_name filename = py_rstrip (filter keep_char filename)"
    by (simp add: clean_name_def)
  from f def chars clean_name_suffix [of filename] clean_name_trimmed [of filename] stored
  show ?thesis by blast
qed

theorem stored_name_is_sanitized_witness:
  "download_image env_ok (PyStr ''http://img/a.jpg'') ''images'' ''Dell Laptop 15_0'' w0 =
     (PyStr ''Dell Laptop 15_0.jpg'', w_after_full) \<and>
   clean_name ''Dell Laptop 15_0'' = ''Dell Laptop 15_0'' \<and>
   files w_after_full ''images/Dell Laptop 15_0.jpg'' = Some (Bytes ''abc'')"
proof -
  have ok: "download_image env_ok (PyStr ''http://img/a.jpg'') ''images'' ''Dell Laptop 15_0'' w0 =
     (PyStr ''Dell Laptop 15_0.jpg'', w_after_full)"
    by (rule download_ok_run)
  from stored_name_is_sanitized [OF ok]
  have "''Dell Laptop 15_0.jpg'' = clean_name ''Dell Laptop 15_0'' @ ''.jpg''" by blast
  then have "clean_name ''Dell Laptop 15_0'' = ''Dell Laptop 15_0''" by simp
  moreover have "files w_after_full ''images/Dell Laptop 15_0.jpg'' = Some (Bytes ''abc'')"
    by (simp add: w_after_full_def)
  ultimately show ?thesis using ok by blast
qed

section \<open>Price and image of one item\<close>

lemma node_half_price_run:
  "item_try e node_half_price [] w = Inr ([product_half_price], w)"
  by (simp add: item_try_def node_half_price_def extract_title_def extract_price_def
        price_try_def extract_rating_def rating_try_def extract_image_url_def except_no_such_def
        py_strip_def py_lstrip_def py_rstrip_def py_isspace_def py_index0_def
        product_half_price_def make_product_def)

lemma node_full_404_run:
  "item_try env_404 node_full [] w0 = Inr ([product_failed], w_after_404)"
  by (simp add: item_try_def node_full_def env_404_def w0_def extract_title_def extract_price_def
        price_try_def extract_rating_def rating_try_def extract_image_url_def except_no_such_def
        py_strip_def py_lstrip_def py_rstrip_def py_isspace_def py_index0_def
        download_image_def record_call_def download_try_def resp_404_def
        py_str_def digit_char_def make_product_def product_failed_def w_after_404_def)

lemma item_try_no_image:
  assumes "item_try e item products w = Inr (products', w')"
    and "extract_image_url item = Inr u" and "\<not> truthy u"
  shows "w' = w \<and> (\<exists>r. products' = products @ [r] \<and>
            map_of r ''image_filename'' = Some (PyStr ''N/A''))"
  using assms
  by (auto simp: item_try_def Let_def make_product_def split: sum.splits)

text \<open>
  Claim C3. In the record of a listing node the price is \<open>N/A\<close> whenever the whole part
  or the fraction part is missing; otherwise both parts were read and the price is
  \<open>$\<close>, the whole part, a period and the fraction part. No price is built from one part.
\<close>

theorem price_whole_and_fraction:
  assumes "item_try e item products w = Inr (products', w')"
  shows "\<exists>r price. products' = products @ [r] \<and> map_of r ''price'' = Some (PyStr price) \<and>
     (price_whole_text item = Inl NoSuchElementException \<or>
      price_fraction_text item = Inl NoSuchElementException \<longrightarrow> price = ''N/A'') \<and>
     (price_whole_text item \<noteq> Inl NoSuchElementException \<and>
      price_fraction_text item \<noteq> Inl NoSuchElementException \<longrightarrow>
        (\<exists>whole fraction. price_whole_text item = Inr whole \<and>
           price_fraction_text item = Inr fraction \<and> price = ''$'' @ whole @ ''.'' @ fraction))"
proof -
  from assms obtain title price rating image_url image_filename where
    "extract_title item = Inr title" and p: "extract_price item = Inr price" and
    "extract_rating item = Inr rating" "extract_image_url item = Inr image_url" and
    ps: "products' = products @ [make_product title price rating image_filename]" and
    "(image_filename, w') =
       (if truthy image_url then
          download_image e image_url ''images''
            ((if title \<noteq> ''N/A'' then take 30 title else ''product'') @ ''_'' @
              py_str (int (length products))) w
        else (PyStr ''N/A'', w))"
    by (rule item_try_Inr)
  have "map_of (make_product title price rating image_filename) ''price'' = Some (PyStr price)"
    by (simp add: make_product_def)
  moreover have "price_whole_text item = Inl NoSuchElementException \<or>
      price_fraction_text item = Inl NoSuchElementException \<longrightarrow> price = ''N/A''"
    using extract_price_Inr [OF p] by auto
  moreover have "price_whole_text item \<noteq> Inl NoSuchElementException \<and>
      price_fraction_text item \<noteq> Inl NoSuchElementException \<longrightarrow>
        (\<exists>whole fraction. price_whole_text item = Inr whole \<and>
           price_fraction_text item = Inr fraction \<and> price = ''$'' @ whole @ ''.'' @ fraction)"
    using extract_price_Inr [OF p] by auto
  ultimately show ?thesis using ps by blast
qed

theorem price_whole_and_fraction_witness:
  "item_try env_ok node_full [] w0 = Inr ([product_full], w_after_full) \<and>
   map_of product_full ''price'' = Some (PyStr ''$499.99'') \<and>
   item_try env_ok node_half_price [] w0 = Inr ([product_half_price], w0) \<and>
   price_fraction_text node_half_price = Inl NoSuchElementException \<and>
   map_of product_half_price ''price'' = Some (PyStr ''N/A'')"
proof -
  have full: "item_try env_ok node_full [] w0 = Inr ([product_full], w_after_full)"
    by (rule node_full_run)
  have half: "item_try env_ok node_half_price [] w0 = Inr ([product_half_price], w0)"
    by (rule node_half_price_run)
  have miss: "price_fraction_text node_half_price = Inl NoSuchElementException"
    by (simp add: node_half_price_def)
  from price_whole_and_fraction [OF full]
  have a: "map_of product_full ''price'' = Some (PyStr ''$499.99'')"
    by (auto simp: node_full_def)
  from price_whole_and_fraction [OF half] miss
  have b: "map_of product_half_price ''price'' = Some (PyStr ''N/A'')"
    by auto
  from full a half miss b show ?thesis by blast
qed

text \<open>
  Claim C6. \<open>download_image\<close> given \<open>None\<close> returns \<open>None\<close> at once: no GET, no file,
  no line printed. For a listing node whose image element or whose \<open>src\<close> attribute is
  missing, the record holds \<open>N/A\<close> as image_filename and the state is unchanged: no call of
  \<open>download_image\<close> and no GET.
\<close>

theorem absent_image_no_fetch:
  "download_image e PyNone folder filename w = (PyNone, record_call PyNone folder filename w) \<and>
   fetched (record_call PyNone folder filename w) = fetched w \<and>
   files (record_call PyNone folder filename w) = files w \<and>
   log (record_call PyNone folder filename w) = log w \<and>
   (item_try e item products w = Inr (products', w') \<and>
    (s_image_src item = Inl NoSuchElementException \<or> s_image_src item = Inr PyNone) \<longrightarrow>
      w' = w \<and> downloads w' = downloads w \<and> fetched w' = fetched w \<and>
      (\<exists>r. products' = products @ [r] \<and> map_of r ''image_filename'' = Some (PyStr ''N/A'')))"
proof (intro conjI impI)
  show "download_image e PyNone folder filename w = (PyNone, record_call PyNone folder filename w)"
    by (rule download_image_none)
next
  assume h: "item_try e item products w = Inr (products', w') \<and>
    (s_image_src item = Inl NoSuchElementException \<or> s_image_src item = Inr PyNone)"
  then have "extract_image_url item = Inr PyNone"
    by (auto simp: extract_image_url_def except_no_such_def)
  with h have r: "w' = w \<and> (\<exists>r. products' = products @ [r] \<and>
            map_of r ''image_filename'' = Some (PyStr ''N/A''))"
    by (intro item_try_no_image [where u = PyNone]) auto
  then show "w' = w" "downloads w' = downloads w" "fetched w' = fetched w"
    "\<exists>r. products' = products @ [r] \<and> map_of r ''image_filename'' = Some (PyStr ''N/A'')"
    by auto
qed (simp_all add: record_call_def)

theorem absent_image_no_fetch_witness:
  "item_try env_ok node_bare [] w0 = Inr ([product_bare], w0) \<and>
   s_image_src node_bare = Inl NoSuchElementException \<and>
   item_try env_ok node_half_price [] w0 = Inr ([product_half_price], w0) \<and>
   s_image_src node_half_price = Inr PyNone \<and>
   downloads w0 = [] \<and> fetched w0 = [] \<and>
   map_of product_bare ''image_filename'' = Some (PyStr ''N/A'') \<and>
   map_of product_half_price ''image_filename'' = Some (PyStr ''N/A'')"
proof -
  have bare: "item_try env_ok node_bare [] w0 = Inr ([product_bare], w0) \<and>
      (s_image_src node_bare = Inl NoSuchElementException \<or> s_image_src node_bare = Inr PyNone)"
    using node_bare_run [of env_ok "[]" w0] by (simp add: node_bare_def)
  have half: "item_try env_ok node_half_price [] w0 = Inr ([product_half_price], w0) \<and>
      (s_image_src node_half_price = Inl NoSuchElementException \<or>
       s_image_src node_half_price = Inr PyNone)"
    using node_half_price_run [of env_ok w0] by (simp add: node_half_price_def)
  note a = absent_image_no_fetch
    [where e = env_ok and item = node_bare and products = "[]" and w = w0
       and products' = "[product_bare]" and w' = w0,
     THEN conjunct2, THEN conjunct2, THEN conjunct2, THEN conjunct2, THEN mp, OF bare]
  note b = absent_image_no_fetch
    [where e = env_ok and item = node_half_price and products = "[]" and w = w0
       and products' = "[product_half_price]" and w' = w0,
     THEN conjunct2, THEN conjunct2, THEN conjunct2, THEN conjunct2, THEN mp, OF half]
  have "map_of product_bare ''image_filename'' = Some (PyStr ''N/A'')" using a by auto
  moreover have "map_of product_half_price ''image_filename'' = Some (PyStr ''N/A'')"
    using b by auto
  moreover have "s_image_src node_bare = Inl NoSuchElementException"
    by (simp add: node_bare_def)
  moreover have "s_image_src node_half_price = Inr PyNone"
    by (simp add: node_half_price_def)
  moreover have "downloads w0 = [] \<and> fetched w0 = []" by (simp add: w0_def)
  ultimately show ?thesis using bare half by blast
qed

text \<open>
  Claim C10. When the image source is a non-empty string and the GET raises or answers
  with a status other than 200, the record holds \<open>None\<close> as image_filename, which differs
  from the \<open>N/A\<close> of a missing image source, also once written as a cell of the table.
\<close>

theorem failed_download_is_none:
  assumes "item_try e item products w = Inr (products', w')"
    and "s_image_src item = Inr (PyStr u)" and "u \<noteq> []"
    and "case http_get e (length (fetched w)) u of
           Inl x \<Rightarrow> True | Inr resp \<Rightarrow> status_code resp \<noteq> 200"
  shows "\<exists>r. products' = products @ [r] \<and> map_of r ''image_filename'' = Some PyNone \<and>
           map_of r ''image_filename'' \<noteq> Some (PyStr ''N/A'') \<and>
           cell (map_of r ''image_filename'') \<noteq> cell (Some (PyStr ''N/A''))"
proof -
  have url: "extract_image_url item = Inr (PyStr u)"
    using assms(2) by (simp add: extract_image_url_def except_no_such_def)
  from assms(1) obtain title price rating image_url image_filename where
    "extract_title item = Inr title" "extract_price item = Inr price"
    "extract_rating item = Inr rating" and u: "extract_image_url item = Inr image_url" and
    ps: "products' = products @ [make_product title price rating image_filename]" and
    dl: "(image_filename, w') =
       (if truthy image_url then
          download_image e image_url ''images''
            ((if title \<noteq> ''N/A'' then take 30 title else ''product'') @ ''_'' @
              py_str (int (length products))) w
        else (PyStr ''N/A'', w))"
    by (rule item_try_Inr)
  from u url have "image_url = PyStr u" by simp
  with dl assms(3) have "image_filename =
      fst (download_image e (PyStr u) ''images''
            ((if title \<noteq> ''N/A'' then take 30 title else ''product'') @ ''_'' @
              py_str (int (length products))) w)"
    by (metis fst_conv truthy.simps(2))
  then have "image_filename = PyNone"
    using download_image_failed [OF assms(3) assms(4)] by simp
  with ps show ?thesis by (simp add: make_product_def)
qed

theorem failed_download_is_none_witness:
  "item_try env_404 node_full [] w0 = Inr ([product_failed], w_after_404) \<and>
   s_image_src node_full = Inr (PyStr ''http://img/a.jpg'') \<and>
   http_get env_404 (length (fetched w0)) ''http://img/a.jpg'' = Inr resp_404 \<and>
   status_code resp_404 = 404 \<and>
   map_of product_failed ''image_filename'' = Some PyNone"
proof -
  have run: "item_try env_404 node_full [] w0 = Inr ([product_failed], w_after_404)"
    by (rule node_full_404_run)
  have src: "s_image_src node_full = Inr (PyStr ''http://img/a.jpg'')"
    by (simp add: node_full_def)
  have ne: "''http://img/a.jpg'' \<noteq> []" by simp
  have get: "http_get env_404 (length (fetched w0)) ''http://img/a.jpg'' = Inr resp_404"
    by (simp add: env_404_def)
  have st: "status_code resp_404 = 404" by (simp add: resp_404_def)
  have bad: "case http_get env_404 (length (fetched w0)) ''http://img/a.jpg'' of
           Inl x \<Rightarrow> True | Inr resp \<Rightarrow> status_code resp \<noteq> 200"
    by (simp add: get st)
  from failed_download_is_none [OF run src ne bad]
  have "map_of product_failed ''image_filename'' = Some PyNone" by auto
  with run src get st show ?thesis by blast
qed

section \<open>The loops over items and pages\<close>

lemma fields_of_make_product [simp]:
  "fields_of_product (make_product title price rating image_filename) = Some (title, price, rating)"
  by (simp add: fields_of_product_def make_product_def)

lemma item_try_Inl:
  "item_try e item products w = Inl ex \<Longrightarrow> fields_of_item item = None"
  by (auto simp: item_try_def fields_of_item_def Let_def split: sum.splits prod.splits)

lemma item_try_fields:
  assumes "item_try e item products w = Inr (products', w')"
  shows "\<exists>r x. products' = products @ [r] \<and> fields_of_product r = Some x \<and>
           fields_of_item item = Some x"
proof -
  from assms obtain title price rating image_url image_filename where
    "extract_title item = Inr title" "extract_price item = Inr price"
    "extract_rating item = Inr rating" "extract_image_url item = Inr image_url"
    "products' = products @ [make_product title price rating image_filename]"
    by (auto elim: item_try_Inr)
  then show ?thesis by (simp add: fields_of_item_def)
qed

lemma process_item_fields:
  assumes "process_item e item products w = (products', w')"
  shows "map fields_of_product products' =
           map fields_of_product products @ map Some (List.map_filter fields_of_item [item])"
proof (cases "item_try e item products w")
  case (Inl ex)
  then have "products' = products" using assms by (simp add: process_item_def)
  then show ?thesis using item_try_Inl [OF Inl] by simp
next
  case (Inr r)
  then have run: "item_try e item products w = Inr (products', w')"
    using assms by (simp add: process_item_def)
  from item_try_fields [OF run] show ?thesis
    by auto
qed

lemma items_loop_fields:
  "items_loop e items products w = (products', w') \<Longrightarrow>
     map fields_of_product products' =
       map fields_of_product products @ map Some (List.map_filter fields_of_item items)"
proof (induction items arbitrary: products w)
  case Nil
  then show ?case by simp
next
  case (Cons item rest)
  obtain p1 w1 where step: "process_item e item products w = (p1, w1)"
    by (cases "process_item e item products w")
  with Cons.prems have loop: "items_loop e rest p1 w1 = (products', w')" by simp
  have "map fields_of_product products' =
          map fields_of_product p1 @ map Some (List.map_filter fields_of_item rest)"
    using loop by (rule Cons.IH)
  also have "map fields_of_product p1 =
          map fields_of_product products @ map Some (List.map_filter fields_of_item [item])"
    using step by (rule process_item_fields)
  finally show ?case
    by (simp split: option.splits)
qed

lemma scrape_page_fields:
  assumes "scrape_page e keyword page products w = (Inr products', w')"
  shows "map fields_of_product products' =
           map fields_of_product products @
           map Some (fields_of_page (driver e (page_url keyword page)))"
  using assms
  by (auto simp: scrape_page_def Let_def fields_of_page_def
           split: option.splits if_splits sum.splits prod.splits dest: items_loop_fields)

lemma pages_loop_fields:
  "pages_loop e keyword pages products w = (Inr products', w') \<Longrightarrow>
     map fields_of_product products' =
       map fields_of_product products @
       map Some (concat (map (\<lambda>page. fields_of_page (driver e (page_url keyword page))) pages))"
proof (induction pages arbitrary: products w)
  case Nil
  then show ?case by simp
next
  case (Cons page rest)
  from Cons.prems obtain p1 w1 where
    step: "scrape_page e keyword page products w = (Inr p1, w1)" and
    loop: "pages_loop e keyword rest p1 w1 = (Inr products', w')"
    by (auto split: prod.splits sum.splits)
  show ?case
    using Cons.IH [OF loop] scrape_page_fields [OF step] by simp
qed

lemma upto_1_3: "[1..3] = [1, 2, 3::int]"
  by (simp add: upto_rec1)

lemma laptop_urls:
  "page_url ''laptop'' 1 = ''https://www.amazon.com/s?k=laptop&page=1''"
  "page_url ''laptop'' 2 = ''https://www.amazon.com/s?k=laptop&page=2''"
  "page_url ''laptop'' 3 = ''https://www.amazon.com/s?k=laptop&page=3''"
  by (simp_all add: page_url_def py_replace_char_def py_str_def digit_char_def)

lemma node_full_any_world:
  "item_try env_ok node_full [] w =
     Inr ([product_full],
          w\<lparr>downloads := downloads w @ [(PyStr ''http://img/a.jpg'', ''images'', ''Dell Laptop 15_0'')],
            fetched := fetched w @ [''http://img/a.jpg''],
            files := (files w)(''images/Dell Laptop 15_0.jpg'' \<mapsto> Bytes ''abc'')\<rparr>)"
  by (simp add: item_try_def node_full_def env_ok_def extract_title_def extract_price_def
        price_try_def extract_rating_def rating_try_def extract_image_url_def except_no_such_def
        py_strip_def py_lstrip_def py_rstrip_def py_isspace_def py_index0_def
        download_image_def record_call_def download_try_def resp_ok_def clean_name_def keep_char_def
        py_isalnum_def os_path_join_def py_str_def digit_char_def make_product_def product_full_def)

lemma page1_run:
  "scrape_page env_ok ''laptop'' 1 [] w0 = (Inr [product_full, product_bare], w_page1)"
  by (simp add: scrape_page_def Let_def laptop_urls env_ok_def [unfolded laptop_urls] page_two_def
        process_item_def node_full_any_world [unfolded env_ok_def laptop_urls] node_bare_run
        emit_def w0_def w_page1_def)

lemma page2_run:
  "scrape_page env_ok ''laptop'' 2 ps w =
     (Inr ps, w\<lparr>log := log w @ [ScrapingPage 2 (page_url ''laptop'' 2), TimeoutWaitingForPage 2],
               visited := visited w @ [page_url ''laptop'' 2]\<rparr>)"
  by (simp add: scrape_page_def Let_def laptop_urls env_ok_def [unfolded laptop_urls] page_timeout_def
        emit_def)

lemma page2_after_page1:
  "scrape_page env_ok ''laptop'' 2 ps w_page1 = (Inr ps, w_page2)"
  by (simp add: page2_run w_page1_def w_page2_def laptop_urls)

lemma page3_run:
  "scrape_page env_ok ''laptop'' 3 [product_full, product_bare] w_page2 =
     (Inr [product_full, product_bare, product_bare], w_run)"
  by (simp add: scrape_page_def Let_def laptop_urls env_ok_def [unfolded laptop_urls] page_last_def
        process_item_def node_bare_run emit_def w_page2_def w_run_def)

lemma laptop_run:
  "get_products env_ok ''laptop'' 3 w0 = (Inr [product_full, product_bare, product_bare], w_run)"
  by (simp add: get_products_def upto_1_3 page1_run page2_after_page1 page3_run)

lemma pages_loop_append:
  "pages_loop e keyword (xs @ ys) products w =
     (case pages_loop e keyword xs products w of
        (Inl ex, w1) \<Rightarrow> (Inl ex, w1)
      | (Inr ps, w1) \<Rightarrow> pages_loop e keyword ys ps w1)"
  by (induction xs arbitrary: products w) (auto split: prod.splits sum.splits)

lemma scrape_page_timeout:
  assumes "get_raises (driver e (page_url keyword k)) = None"
    and "wait_raises (driver e (page_url keyword k)) = Some TimeoutException"
  shows "scrape_page e keyword k ps w =
     (Inr ps, w\<lparr>log := log w @ [ScrapingPage k (page_url keyword k), TimeoutWaitingForPage k],
               visited := visited w @ [page_url keyword k]\<rparr>)"
  using assms by (simp add: scrape_page_def Let_def emit_def)

text \<open>
  Claim C2. When \<open>get_products\<close> returns, the titles, prices and ratings of its records
  are those of the listings whose extraction completes, page after page from 1 to
  \<open>pages\<close> and in the order of each page: nothing is reordered, merged or dropped, and a
  page whose wait timed out adds nothing.
\<close>

theorem products_in_page_then_position_order:
  assumes "get_products e keyword pages w = (Inr products, w')"
  shows "map fields_of_product products =
           map Some (concat (map (\<lambda>page. fields_of_page (driver e (page_url keyword page)))
                               [1..pages]))"
  using pages_loop_fields [of e keyword "[1..pages]" "[]" w products w'] assms
  by (simp add: get_products_def)

theorem products_in_page_then_position_order_witness:
  "get_products env_ok ''laptop'' 3 w0 = (Inr [product_full, product_bare, product_bare], w_run) \<and>
   map fields_of_product [product_full, product_bare, product_bare] =
     map Some (concat (map (\<lambda>page. fields_of_page (driver env_ok (page_url ''laptop'' page)))
                         [1..3])) \<and>
   map fields_of_product [product_full, product_bare, product_bare] =
     [Some (''Dell Laptop 15'', ''$499.99'', ''4.5''), Some (''N/A'', ''N/A'', ''N/A''),
      Some (''N/A'', ''N/A'', ''N/A'')]"
proof -
  have run: "get_products env_ok ''laptop'' 3 w0 =
      (Inr [product_full, product_bare, product_bare], w_run)"
    by (rule laptop_run)
  have "map fields_of_product [product_full, product_bare, product_bare] =
     [Some (''Dell Laptop 15'', ''$499.99'', ''4.5''), Some (''N/A'', ''N/A'', ''N/A''),
      Some (''N/A'', ''N/A'', ''N/A'')]"
    by (simp add: fields_of_product_def product_full_def product_bare_def)
  with run products_in_page_then_position_order [OF run] show ?thesis by simp
qed

text \<open>
  Claim C4. When the wait on page \<open>k\<close> times out, the run after the pages before
  \<open>k\<close> prints the two lines of page \<open>k\<close>, visits its URL once, keeps the records as
  they are, and goes on with the pages \<open>k + 1\<close> to \<open>pages\<close>.
\<close>

theorem timeout_page_is_skipped:
  assumes "1 \<le> k" and "k \<le> pages"
    and "get_raises (driver e (page_url keyword k)) = None"
    and "wait_raises (driver e (page_url keyword k)) = Some TimeoutException"
  shows "get_products e keyword pages w =
     (case pages_loop e keyword [1..k - 1] [] w of
        (Inl ex, w1) \<Rightarrow> (Inl ex, w1)
      | (Inr ps, w1) \<Rightarrow>
          pages_loop e keyword [k + 1..pages] ps
            (w1\<lparr>log := log w1 @ [ScrapingPage k (page_url keyword k), TimeoutWaitingForPage k],
                visited := visited w1 @ [page_url keyword k]\<rparr>))"
proof -
  have split: "[1..pages] = [1..k - 1] @ k # [k + 1..pages]"
    using assms(1,2) by (rule upto_split3)
  show ?thesis
    unfolding get_products_def split pages_loop_append
    by (simp add: scrape_page_timeout [OF assms(3,4)] split: prod.splits sum.splits)
qed

theorem timeout_page_is_skipped_witness:
  "(1::int) \<le> 2 \<and> (2::int) \<le> 3 \<and>
   get_raises (driver env_ok (page_url ''laptop'' 2)) = None \<and>
   wait_raises (driver env_ok (page_url ''laptop'' 2)) = Some TimeoutException \<and>
   pages_loop env_ok ''laptop'' [1..2 - 1] [] w0 = (Inr [product_full, product_bare], w_page1) \<and>
   get_products env_ok ''laptop'' 3 w0 =
     pages_loop env_ok ''laptop'' [2 + 1..3] [product_full, product_bare] w_page2 \<and>
   pages_loop env_ok ''laptop'' [2 + 1..3] [product_full, product_bare] w_page2 =
     (Inr [product_full, product_bare, product_bare], w_run)"
proof -
  have k: "(1::int) \<le> 2" "(2::int) \<le> 3" by simp_all
  have g: "get_raises (driver env_ok (page_url ''laptop'' 2)) = None"
    by (simp add: env_ok_def laptop_urls page_timeout_def)
  have t: "wait_raises (driver env_ok (page_url ''laptop'' 2)) = Some TimeoutException"
    by (simp add: env_ok_def laptop_urls page_timeout_def)
  have before: "pages_loop env_ok ''laptop'' [1..2 - 1] [] w0 =
      (Inr [product_full, product_bare], w_page1)"
    by (simp add: upto_rec1 page1_run)
  have after: "pages_loop env_ok ''laptop'' [2 + 1..3] [product_full, product_bare] w_page2 =
     (Inr [product_full, product_bare, product_bare], w_run)"
    by (simp add: upto_rec1 page3_run)
  have w2: "w_page1\<lparr>log := log w_page1 @
                       [ScrapingPage 2 (page_url ''laptop'' 2), TimeoutWaitingForPage 2],
                    visited := visited w_page1 @ [page_url ''laptop'' 2]\<rparr> = w_page2"
    by (simp add: w_page1_def w_page2_def laptop_urls)
  from timeout_page_is_skipped [OF k g t, of w0]
  have "get_products env_ok ''laptop'' 3 w0 =
     pages_loop env_ok ''laptop'' [2 + 1..3] [product_full, product_bare] w_page2"
    by (simp only: before w2 prod.case sum.case)
  with k g t before after show ?thesis by blast
qed

section \<open>Writing the table\<close>

lemma writerows_all:
  "\<forall>r \<in> set products. set (map fst r) \<subseteq> set fieldnames \<Longrightarrow>
     writerows fieldnames products =
       (map (\<lambda>r. map (\<lambda>key. cell (map_of r key)) fieldnames) products, None)"
  by (induction products) (auto simp: dict_to_list_def)

text \<open>
  Claim C9. \<open>save_to_csv\<close> on an empty list writes no file and prints a notice. On a
  non-empty list whose records have no key beyond those of the first, and when the file
  can be opened, the file holds the keys of the first record as its header row, then one
  row for each record in the order of the list.
\<close>

theorem save_to_csv_header_and_rows:
  "files (save_to_csv e [] filename w) = files w \<and>
   log (save_to_csv e [] filename w) = log w @ [NoProductsToSave] \<and>
   (file_open e filename = None \<and>
    (\<forall>r \<in> set (first # rest). set (map fst r) \<subseteq> set (map fst first)) \<longrightarrow>
      files (save_to_csv e (first # rest) filename w) =
        (files w)(filename \<mapsto>
           Rows (map fst first #
                 map (\<lambda>r. map (\<lambda>key. cell (map_of r key)) (map fst first)) (first # rest))) \<and>
      log (save_to_csv e (first # rest) filename w) =
        log w @ [SuccessfullySaved (length (first # rest)) filename])"
proof (intro conjI impI)
  show "files (save_to_csv e [] filename w) = files w"
    by (simp add: save_to_csv_def emit_def)
  show "log (save_to_csv e [] filename w) = log w @ [NoProductsToSave]"
    by (simp add: save_to_csv_def emit_def)
next
  assume h: "file_open e filename = None \<and>
    (\<forall>r \<in> set (first # rest). set (map fst r) \<subseteq> set (map fst first))"
  then have rows: "writerows (map fst first) (first # rest) =
      (map (\<lambda>r. map (\<lambda>key. cell (map_of r key)) (map fst first)) (first # rest), None)"
    by (intro writerows_all) simp
  show "files (save_to_csv e (first # rest) filename w) =
        (files w)(filename \<mapsto>
           Rows (map fst first #
                 map (\<lambda>r. map (\<lambda>key. cell (map_of r key)) (map fst first)) (first # rest)))"
    using h by (simp add: save_to_csv_def csv_try_def rows emit_def del: writerows.simps)
  show "log (save_to_csv e (first # rest) filename w) =
        log w @ [SuccessfullySaved (length (first # rest)) filename]"
    using h by (simp add: save_to_csv_def csv_try_def rows emit_def del: writerows.simps)
qed

theorem save_to_csv_header_and_rows_witness:
  "file_open env_ok ''products.csv'' = None \<and>
   set (map fst product_full) \<subseteq> set (map fst product_full) \<and>
   set (map fst product_bare) \<subseteq> set (map fst product_full) \<and>
   files (save_to_csv env_ok [product_full, product_bare] ''products.csv'' w0) =
     [''products.csv'' \<mapsto>
        Rows [[''title'', ''price'', ''rating'', ''image_filename''],
              [''Dell Laptop 15'', ''$499.99'', ''4.5'', ''Dell Laptop 15_0.jpg''],
              [''N/A'', ''N/A'', ''N/A'', ''N/A'']]] \<and>
   log (save_to_csv env_ok [product_full, product_bare] ''products.csv'' w0) =
     [SuccessfullySaved 2 ''products.csv'']"
proof -
  have h: "file_open env_ok ''products.csv'' = None \<and>
      (\<forall>r \<in> set [product_full, product_bare]. set (map fst r) \<subseteq> set (map fst product_full))"
    by (simp add: env_ok_def product_full_def product_bare_def)
  note c = save_to_csv_header_and_rows
    [where e = env_ok and filename = "''products.csv''" and first = product_full
       and rest = "[product_bare]" and w = w0,
     THEN conjunct2, THEN conjunct2, THEN mp, OF h]
  have "files (save_to_csv env_ok [product_full, product_bare] ''products.csv'' w0) =
     [''products.csv'' \<mapsto>
        Rows [[''title'', ''price'', ''rating'', ''image_filename''],
              [''Dell Laptop 15'', ''$499.99'', ''4.5'', ''Dell Laptop 15_0.jpg''],
              [''N/A'', ''N/A'', ''N/A'', ''N/A'']]]"
    using c by (simp add: product_full_def product_bare_def w0_def)
  moreover have "log (save_to_csv env_ok [product_full, product_bare] ''products.csv'' w0) =
     [SuccessfullySaved 2 ''products.csv'']"
    using c by (simp add: w0_def)
  moreover have "set (map fst product_full) \<subseteq> set (map fst product_full) \<and>
      set (map fst product_bare) \<subseteq> set (map fst product_full)"
    using h by simp
  ultimately show ?thesis using h by blast
qed

end
